theory Spec2Isabelle
  imports Complex_Main "HOL-Library.Word" "HOL-Library.Monad_Syntax"
begin

unbundle bit_operations_syntax

section \<open>The MD2 loader and player of Md2.cpp\<close>

text \<open>
  Conventions of the embedding.
  \<^item> The fixed-width integers of the source (\<open>int16_t\<close>, \<open>int32_t\<close>, \<open>uint16_t\<close>)
    are integers of HOL with the conversion to the narrower type written out
    (\<open>to_int16\<close>, \<open>to_int32\<close>, \<open>to_uint16\<close>).
  \<^item> A \<open>float\<close> is the real number it denotes and arithmetic on it is exact: rounding,
    infinities and NaN are outside the model. The cursors and time steps of the
    examples below are dyadic fractions that binary32 holds exactly, with exact
    intermediate results.
  \<^item> A read out of the bounds of a table or an array, and a use of memory that was
    never written, have no defined behaviour in C++: the model returns \<open>None\<close>
    (\<open>Undefined\<close> for the loader) there.
  \<^item> Names: the classes \<open>_Animation\<close>, \<open>_Frame\<close> and \<open>_Md2Header\<close> and the function
    \<open>_Clear\<close> lose their underscore, and the member \<open>end\<close> of \<open>_Animation\<close> is
    \<open>last_frame\<close>.
\<close>

subsection \<open>Integer conversions\<close>

definition to_int16 :: "int \<Rightarrow> int" where
  "to_int16 x = (x + 32768) mod 65536 - 32768"

definition to_int32 :: "int \<Rightarrow> int" where
  "to_int32 x = (x + 2147483648) mod 4294967296 - 2147483648"

definition to_uint16 :: "int \<Rightarrow> int" where
  "to_uint16 x = x mod 65536"

subsection \<open>The animation table\<close>

text \<open>\<open>Md2::_Animation\<close>: first frame, last frame, frames per second.\<close>

record Animation =
  start :: int
  last_frame :: int
  fps :: real

text \<open>\<open>int16_t FrameCount() const {return end-start+1;}\<close>\<close>

definition FrameCount :: "Animation \<Rightarrow> int" where
  "FrameCount a = to_int16 (last_frame a - start a + 1)"

definition mk_anim :: "int \<Rightarrow> int \<Rightarrow> real \<Rightarrow> Animation" where
  "mk_anim s e f = \<lparr>start = s, last_frame = e, fps = f\<rparr>"

definition sAnimations :: "Animation list" where
  "sAnimations =
    [ mk_anim 0 39 9,      mk_anim 40 45 10,    mk_anim 46 53 10,
      mk_anim 54 57 7,     mk_anim 58 61 7,     mk_anim 62 65 7,
      mk_anim 66 71 7,     mk_anim 72 83 7,     mk_anim 84 94 7,
      mk_anim 95 111 10,   mk_anim 112 122 7,   mk_anim 123 134 6,
      mk_anim 135 153 10,  mk_anim 154 159 7,   mk_anim 160 168 10,
      mk_anim 169 172 7,   mk_anim 173 177 5,   mk_anim 178 183 7,
      mk_anim 184 189 7,   mk_anim 190 197 7,   mk_anim 198 198 5 ]"

text \<open>The enumerators of \<open>Md2::AnimationName\<close> that the player uses.\<close>

definition ANIMATION_STAND :: int where
  "ANIMATION_STAND = 0"

definition ANIMATION_BOOM :: int where
  "ANIMATION_BOOM = 20"

text \<open>\<open>sAnimations[i]\<close>: defined for the 21 entries only.\<close>

definition animation_at :: "int \<Rightarrow> Animation option" where
  "animation_at i = (if 0 \<le> i \<and> i < 21 then Some (sAnimations ! nat i) else None)"

subsection \<open>Memory and the object\<close>

type_synonym byte = "8 word"

text \<open>A byte of memory that was never written is \<open>None\<close>.\<close>

type_synonym mem = "byte option list"

text \<open>
  \<open>Md2::_Frame\<close>. \<open>vertices\<close> is \<open>None\<close> while the pointer is not yet assigned
  (\<open>new _Frame[n]\<close> runs no constructor), and \<open>Some m\<close> once it points to an array
  with the bytes \<open>m\<close> (four bytes for each vertex: x, y, z, n).
\<close>

record Frame =
  vertices :: "mem option"
  scale :: mem
  translation :: mem
  fname :: mem

text \<open>The members of \<open>Md2\<close>. A null pointer is \<open>None\<close>.\<close>

record Md2 =
  mSkins :: "mem option"
  mTexCoords :: "mem option"
  mTriangles :: "mem option"
  mFrames :: "Frame list option"
  mSkinCnt :: int
  mTexCoordCnt :: int
  mTriangleCnt :: int
  mFrameCnt :: int
  mVertexCnt :: int
  mSkinWidth :: int
  mSkinHeight :: int
  mActiveAnimation :: int
  mActiveFrame :: real
  mSpeed :: real
  mIsPlaying :: bool

text \<open>The default constructor \<open>Md2::Md2()\<close>.\<close>

definition Md2_default :: Md2 where
  "Md2_default =
    \<lparr> mSkins = None, mTexCoords = None, mTriangles = None, mFrames = None,
      mSkinCnt = -1, mTexCoordCnt = -1, mTriangleCnt = -1, mFrameCnt = -1,
      mVertexCnt = -1, mSkinWidth = -1, mSkinHeight = -1,
      mActiveAnimation = 0, mActiveFrame = 0, mSpeed = 1, mIsPlaying = True \<rparr>"

subsection \<open>Playback\<close>

definition Play :: "Md2 \<Rightarrow> Md2" where
  "Play m = m\<lparr>mIsPlaying := True\<rparr>"

definition Pause :: "Md2 \<Rightarrow> Md2" where
  "Pause m = m\<lparr>mIsPlaying := False\<rparr>"

text \<open>
  \<open>++mActiveAnimation; if(mActiveAnimation >= ANIMATION_BOOM) mActiveAnimation =
  ANIMATION_STAND; mActiveFrame = sAnimations[mActiveAnimation].start;\<close>
\<close>

definition NextAnimation :: "Md2 \<Rightarrow> Md2 option" where
  "NextAnimation m =
    (let i = to_int16 (mActiveAnimation m + 1);
         i' = (if i \<ge> ANIMATION_BOOM then ANIMATION_STAND else i)
     in case animation_at i' of
          None \<Rightarrow> None
        | Some a \<Rightarrow> Some (m\<lparr>mActiveAnimation := i', mActiveFrame := of_int (start a)\<rparr>))"

text \<open>
  \<open>--mActiveAnimation; if(mActiveAnimation == -1) mActiveAnimation += ANIMATION_BOOM;
  mActiveFrame = sAnimations[mActiveAnimation].start;\<close>
\<close>

definition PreviousAnimation :: "Md2 \<Rightarrow> Md2 option" where
  "PreviousAnimation m =
    (let i = to_int16 (mActiveAnimation m - 1);
         i' = (if i = -1 then to_int16 (i + ANIMATION_BOOM) else i)
     in case animation_at i' of
          None \<Rightarrow> None
        | Some a \<Rightarrow> Some (m\<lparr>mActiveAnimation := i', mActiveFrame := of_int (start a)\<rparr>))"

text \<open>
  \<open>std::modf\<close> splits a number into its integer part (rounded towards zero, stored
  through the pointer) and the fraction it returns; \<open>std::fmod x y\<close> is the remainder
  of the division truncated towards zero.
\<close>

definition trunc :: "real \<Rightarrow> int" where
  "trunc x = (if 0 \<le> x then \<lfloor>x\<rfloor> else \<lceil>x\<rceil>)"

definition modf_int :: "real \<Rightarrow> real" where
  "modf_int x = of_int (trunc x)"

definition modf_frac :: "real \<Rightarrow> real" where
  "modf_frac x = x - of_int (trunc x)"

definition fmod :: "real \<Rightarrow> real \<Rightarrow> real" where
  "fmod x y = x - of_int (trunc (x / y)) * y"

text \<open>
  \<open>Md2::Update\<close>. In the wrapping assignment
  \<open>mActiveFrame = std::modf(mActiveFrame, &mActiveFrame) + std::fmod(mActiveFrame - start,
  FrameCount()) + start\<close> the call of \<open>modf\<close> stores the integer part into
  \<open>mActiveFrame\<close> and the argument of \<open>fmod\<close> reads \<open>mActiveFrame\<close>. C++ leaves the
  order of the two operands open; they are taken from left to right here, so that
  \<open>fmod\<close> sees the integer part that \<open>modf\<close> stored.
\<close>

definition Update :: "real \<Rightarrow> Md2 \<Rightarrow> Md2 option" where
  "Update dt m =
    (if \<not> mIsPlaying m then Some m
     else case animation_at (mActiveAnimation m) of
       None \<Rightarrow> None
     | Some a \<Rightarrow>
         (let f = mActiveFrame m + mSpeed m * dt * fps a
          in if f \<ge> of_int (last_frame a)
             then Some (m\<lparr>mActiveFrame :=
                    modf_frac f + fmod (modf_int f - of_int (start a)) (of_int (FrameCount a))
                      + of_int (start a)\<rparr>)
             else Some (m\<lparr>mActiveFrame := f\<rparr>)))"

text \<open>The calls a client can make on the player, and a run of them.\<close>

datatype playback_op = OpPlay | OpPause | OpNext | OpPrevious | OpUpdate real

fun apply_op :: "playback_op \<Rightarrow> Md2 \<Rightarrow> Md2 option" where
  "apply_op OpPlay m = Some (Play m)"
| "apply_op OpPause m = Some (Pause m)"
| "apply_op OpNext m = NextAnimation m"
| "apply_op OpPrevious m = PreviousAnimation m"
| "apply_op (OpUpdate dt) m = Update dt m"

fun run_ops :: "playback_op list \<Rightarrow> Md2 \<Rightarrow> Md2 option" where
  "run_ops [] m = Some m"
| "run_ops (c # cs) m = (case apply_op c m of None \<Rightarrow> None | Some m' \<Rightarrow> run_ops cs m')"

text \<open>The states the player reaches from the default state.\<close>

definition reachable :: "Md2 \<Rightarrow> bool" where
  "reachable m = (\<exists>cs. run_ops cs Md2_default = Some m)"

text \<open>A call that does not move the cursor backwards.\<close>

fun nonneg_step :: "playback_op \<Rightarrow> bool" where
  "nonneg_step (OpUpdate dt) = (0 \<le> dt)"
| "nonneg_step c = True"

text \<open>
  The animation cursor is inside the active sequence when its integer part is one of
  the frames \<open>start .. end\<close> of the sequence.
\<close>

definition in_sequence :: "Md2 \<Rightarrow> bool" where
  "in_sequence m =
    (case animation_at (mActiveAnimation m) of
       None \<Rightarrow> False
     | Some a \<Rightarrow> start a \<le> \<lfloor>mActiveFrame m\<rfloor> \<and> \<lfloor>mActiveFrame m\<rfloor> \<le> last_frame a)"

text \<open>What every table entry satisfies, and what every reachable state satisfies.\<close>

definition entry_ok :: "Animation \<Rightarrow> bool" where
  "entry_ok a = (0 \<le> start a \<and> start a \<le> last_frame a \<and> last_frame a \<le> 198)"

definition player_inv :: "Md2 \<Rightarrow> bool" where
  "player_inv m =
    (0 \<le> mActiveAnimation m \<and> mActiveAnimation m < 20 \<and>
     mActiveFrame m < of_int (last_frame (sAnimations ! nat (mActiveAnimation m))) + 1)"

subsection \<open>The input stream\<close>

text \<open>
  A \<open>std::ifstream\<close> opened for binary input: the bytes of the file, the read
  position and the fail bit. Once the fail bit is set, every later \<open>seekg\<close> and
  \<open>read\<close> does nothing.
\<close>

record istream =
  data :: "byte list"
  gpos :: nat
  failbit :: bool

definition open_stream :: "byte list \<Rightarrow> istream" where
  "open_stream bs = \<lparr>data = bs, gpos = 0, failbit = False\<rparr>"

text \<open>
  \<open>read(dst, k)\<close> into fresh memory: the bytes left in the file are stored, up to
  \<open>k\<close> of them; when fewer than \<open>k\<close> are left the stream fails and the rest of the
  destination stays unwritten.
\<close>

definition read :: "nat \<Rightarrow> istream \<Rightarrow> mem \<times> istream" where
  "read k s =
    (if failbit s then (replicate k None, s)
     else let got = take k (drop (gpos s) (data s))
          in (map Some got @ replicate (k - length got) None,
              s\<lparr>gpos := gpos s + length got, failbit := length got < k\<rparr>))"

text \<open>\<open>seekg(off, beg)\<close>: a negative offset fails; one past the end is kept.\<close>

definition seekg :: "int \<Rightarrow> istream \<Rightarrow> istream" where
  "seekg off s =
    (if failbit s then s
     else if off < 0 then s\<lparr>failbit := True\<rparr>
     else s\<lparr>gpos := nat off\<rparr>)"

subsection \<open>Values in memory (little-endian)\<close>

definition le_uint :: "byte list \<Rightarrow> int" where
  "le_uint bs = foldr (\<lambda>b v. uint b + 256 * v) bs 0"

text \<open>The \<open>k\<close> bytes at an offset, when all of them are there and written.\<close>

definition bytes_at :: "mem \<Rightarrow> nat \<Rightarrow> nat \<Rightarrow> byte list option" where
  "bytes_at m off k = (if off + k \<le> length m then those (take k (drop off m)) else None)"

definition int32_at :: "mem \<Rightarrow> nat \<Rightarrow> int option" where
  "int32_at m off = map_option (\<lambda>bs. to_int32 (le_uint bs)) (bytes_at m off 4)"

definition uint16_at :: "mem \<Rightarrow> nat \<Rightarrow> int option" where
  "uint16_at m off = map_option le_uint (bytes_at m off 2)"

definition int16_at :: "mem \<Rightarrow> nat \<Rightarrow> int option" where
  "int16_at m off = map_option (\<lambda>bs. to_int16 (le_uint bs)) (bytes_at m off 2)"

definition uint8_at :: "mem \<Rightarrow> nat \<Rightarrow> int option" where
  "uint8_at m off = map_option le_uint (bytes_at m off 1)"

text \<open>
  The real number of a binary32 bit pattern (sign, 8 bits of exponent, 23 bits of
  fraction); \<open>None\<close> for an infinity or a NaN.
\<close>

definition float_of_bits :: "int \<Rightarrow> real option" where
  "float_of_bits w =
    (let e = (w div 8388608) mod 256;
         frac = w mod 8388608;
         mag = (if e = 0 then of_int frac / 2 ^ 149
                else if e < 150 then of_int (8388608 + frac) / 2 ^ nat (150 - e)
                else of_int (8388608 + frac) * 2 ^ nat (e - 150))
     in if e = 255 then None
        else Some (if w div 2147483648 = 1 then - mag else mag))"

definition float_at :: "mem \<Rightarrow> nat \<Rightarrow> real option" where
  "float_at m off =
    (case bytes_at m off 4 of None \<Rightarrow> None | Some bs \<Rightarrow> float_of_bits (le_uint bs))"

subsection \<open>The file header\<close>

text \<open>\<open>_Md2Header\<close>, seventeen \<open>int32_t\<close>; a field that was not read is \<open>None\<close>.\<close>

record Md2Header =
  ident :: "int option"
  version :: "int option"
  skinWidth :: "int option"
  skinHeight :: "int option"
  frameSize :: "int option"
  skinCnt :: "int option"
  vertexCnt :: "int option"
  texCoordCnt :: "int option"
  triangleCnt :: "int option"
  glcmdCnt :: "int option"
  frameCnt :: "int option"
  skinOffset :: "int option"
  texCoordOffset :: "int option"
  triangleOffset :: "int option"
  frameOffset :: "int option"
  glcmdOffset :: "int option"
  endOffset :: "int option"

definition header_of :: "mem \<Rightarrow> Md2Header" where
  "header_of m =
    \<lparr> ident = int32_at m 0, version = int32_at m 4,
      skinWidth = int32_at m 8, skinHeight = int32_at m 12, frameSize = int32_at m 16,
      skinCnt = int32_at m 20, vertexCnt = int32_at m 24, texCoordCnt = int32_at m 28,
      triangleCnt = int32_at m 32, glcmdCnt = int32_at m 36, frameCnt = int32_at m 40,
      skinOffset = int32_at m 44, texCoordOffset = int32_at m 48,
      triangleOffset = int32_at m 52, frameOffset = int32_at m 56,
      glcmdOffset = int32_at m 60, endOffset = int32_at m 64 \<rparr>"

text \<open>\<open>('I'|'D'<< 8|'P'<<16|'2'<< 24)\<close>\<close>

definition IDP2 :: int where
  "IDP2 = 73 OR push_bit 8 68 OR push_bit 16 80 OR push_bit 24 50"

subsection \<open>Loading\<close>

datatype Md2Exception =
  FileNotFound | BadIdent | BadVersion | BadTriangleData | BadFrameData | BadVertexData

text \<open>
  How a call of \<open>Load\<close> ends: it returns, it throws (the object is left as it was at
  the \<open>throw\<close>), or its behaviour is not defined.
\<close>

datatype outcome = Returns Md2 | Throws Md2Exception Md2 | Undefined

text \<open>
  \<open>Md2::_Clear\<close>. \<open>delete[] mFrames\<close> runs \<open>~_Frame\<close> on every frame, which deletes
  its \<open>vertices\<close>: not defined for a frame whose pointer was never assigned.
\<close>

definition deletable :: "Md2 \<Rightarrow> bool" where
  "deletable m =
    (case mFrames m of None \<Rightarrow> True | Some fs \<Rightarrow> list_all (\<lambda>f. vertices f \<noteq> None) fs)"

definition cleared :: "Md2 \<Rightarrow> Md2" where
  "cleared m =
    m\<lparr> mSkins := None, mTexCoords := None, mTriangles := None, mFrames := None,
       mSkinCnt := -1, mTexCoordCnt := -1, mTriangleCnt := -1, mFrameCnt := -1,
       mVertexCnt := -1, mSkinWidth := -1, mSkinHeight := -1 \<rparr>"

definition Clear :: "Md2 \<Rightarrow> Md2 option" where
  "Clear m = (if deletable m then Some (cleared m) else None)"

text \<open>\<open>new _Frame[n]\<close>: no member is initialised.\<close>

definition new_Frame :: Frame where
  "new_Frame = \<lparr> vertices = None, scale = replicate 12 None,
                 translation = replicate 12 None, fname = replicate 16 None \<rparr>"

text \<open>The loop that reads the frames, \<open>k\<close> bytes of vertices for each.\<close>

fun read_frames :: "nat \<Rightarrow> Frame list \<Rightarrow> istream \<Rightarrow> Frame list \<times> istream" where
  "read_frames k [] s = ([], s)"
| "read_frames k (f # fs) s =
    (let (sc, s1) = read 12 s;
         (tr, s2) = read 12 s1;
         (nm, s3) = read 16 s2;
         (vs, s4) = read k s3;
         (fs', s5) = read_frames k fs s4
     in (f\<lparr>scale := sc, translation := tr, fname := nm, vertices := Some vs\<rparr> # fs', s5))"

text \<open>The steps of \<open>Md2::Load\<close> after the header was checked, last step first.\<close>

definition load_frames :: "Md2Header \<Rightarrow> istream \<Rightarrow> Md2 \<Rightarrow> outcome" where
  "load_frames h s m =
    (if mFrameCnt m = 198 then
       (let m1 = m\<lparr>mFrames := Some (replicate (nat (mFrameCnt m)) new_Frame)\<rparr>
        in if 0 < mVertexCnt m then
             (let k = 4 * nat (mVertexCnt m);
                  fs = replicate (nat (mFrameCnt m)) (new_Frame\<lparr>vertices := Some (replicate k None)\<rparr>)
              in case frameOffset h of
                   None \<Rightarrow> Undefined
                 | Some off \<Rightarrow>
                     Returns (m1\<lparr>mFrames := Some (fst (read_frames k fs (seekg off s)))\<rparr>))
           else Throws BadVertexData m1)
     else Throws BadFrameData m)"

definition load_triangles :: "Md2Header \<Rightarrow> istream \<Rightarrow> Md2 \<Rightarrow> outcome" where
  "load_triangles h s m =
    (if 0 < mTriangleCnt m then
       (case triangleOffset h of
          None \<Rightarrow> Undefined
        | Some off \<Rightarrow>
            (let (d, s1) = read (12 * nat (mTriangleCnt m)) (seekg off s)
             in load_frames h s1 (m\<lparr>mTriangles := Some d\<rparr>)))
     else Throws BadTriangleData m)"

definition load_texcoords :: "Md2Header \<Rightarrow> istream \<Rightarrow> Md2 \<Rightarrow> outcome" where
  "load_texcoords h s m =
    (if 0 < mTexCoordCnt m then
       (case texCoordOffset h of
          None \<Rightarrow> Undefined
        | Some off \<Rightarrow>
            (let (d, s1) = read (4 * nat (mTexCoordCnt m)) (seekg off s)
             in load_triangles h s1 (m\<lparr>mTexCoords := Some d\<rparr>)))
     else load_triangles h s m)"

definition load_skins :: "Md2Header \<Rightarrow> istream \<Rightarrow> Md2 \<Rightarrow> outcome" where
  "load_skins h s m =
    (if 0 < mSkinCnt m then
       (case skinOffset h of
          None \<Rightarrow> Undefined
        | Some off \<Rightarrow>
            (let (d, s1) = read (64 * nat (mSkinCnt m)) (seekg off s)
             in load_texcoords h s1 (m\<lparr>mSkins := Some d\<rparr>)))
     else load_texcoords h s m)"

text \<open>\<open>// save information\<close>: seven fields are copied into \<open>int16_t\<close> members.\<close>

definition save_information :: "Md2Header \<Rightarrow> Md2 \<Rightarrow> Md2 option" where
  "save_information h m =
    (case (skinCnt h, texCoordCnt h, triangleCnt h, frameCnt h, vertexCnt h,
           skinWidth h, skinHeight h) of
       (Some sc, Some tc, Some trc, Some fc, Some vc, Some sw, Some sh) \<Rightarrow>
         Some (m\<lparr> mSkinCnt := to_int16 sc, mTexCoordCnt := to_int16 tc,
                  mTriangleCnt := to_int16 trc, mFrameCnt := to_int16 fc,
                  mVertexCnt := to_int16 vc, mSkinWidth := to_int16 sw,
                  mSkinHeight := to_int16 sh \<rparr>)
     | _ \<Rightarrow> None)"

text \<open>
  \<open>Md2::Load\<close>. The file is \<open>None\<close> when it cannot be opened, and its bytes
  otherwise.
\<close>

definition Load :: "byte list option \<Rightarrow> Md2 \<Rightarrow> outcome" where
  "Load file m0 =
    (case Clear m0 of
       None \<Rightarrow> Undefined
     | Some m \<Rightarrow>
    (case file of
       None \<Rightarrow> Throws FileNotFound m
     | Some bs \<Rightarrow>
    (let (hm, s) = read 68 (open_stream bs);
         h = header_of hm
     in case ident h of
          None \<Rightarrow> Undefined
        | Some idt \<Rightarrow>
       if idt \<noteq> IDP2 then Throws BadIdent m
       else case version h of
          None \<Rightarrow> Undefined
        | Some v \<Rightarrow>
       if v \<noteq> 8 then Throws BadVersion m
       else case save_information h m of
          None \<Rightarrow> Undefined
        | Some m1 \<Rightarrow> load_skins h s m1)))"

text \<open>
  The object without its four arrays, and the exceptions thrown after the header's
  counts were copied into the object.
\<close>

definition without_arrays :: "Md2 \<Rightarrow> Md2" where
  "without_arrays m =
    m\<lparr>mSkins := None, mTexCoords := None, mTriangles := None, mFrames := None\<rparr>"







subsection \<open>The normal table\<close>

text \<open>
  \<open>Md2::sNormals\<close>, 162 directions; each entry is written with the decimal value of
  the literal in the source.
\<close>

definition sNormals :: "(real \<times> real \<times> real) list" where
  "sNormals =
    [ (- (525731 / 1000000), 0, 850651 / 1000000),
      (- (442863 / 1000000), 238856 / 1000000, 864188 / 1000000),
      (- (295242 / 1000000), 0, 955423 / 1000000),
      (- (309017 / 1000000), 500000 / 1000000, 809017 / 1000000),
      (- (162460 / 1000000), 262866 / 1000000, 951056 / 1000000),
      (0, 0, 1),
      (0, 850651 / 1000000, 525731 / 1000000),
      (- (147621 / 1000000), 716567 / 1000000, 681718 / 1000000),
      (147621 / 1000000, 716567 / 1000000, 681718 / 1000000),
      (0, 525731 / 1000000, 850651 / 1000000),
      (309017 / 1000000, 500000 / 1000000, 809017 / 1000000),
      (525731 / 1000000, 0, 850651 / 1000000),
      (295242 / 1000000, 0, 955423 / 1000000),
      (442863 / 1000000, 238856 / 1000000, 864188 / 1000000),
      (162460 / 1000000, 262866 / 1000000, 951056 / 1000000),
      (- (681718 / 1000000), 147621 / 1000000, 716567 / 1000000),
      (- (809017 / 1000000), 309017 / 1000000, 500000 / 1000000),
      (- (587785 / 1000000), 425325 / 1000000, 688191 / 1000000),
      (- (850651 / 1000000), 525731 / 1000000, 0),
      (- (864188 / 1000000), 442863 / 1000000, 238856 / 1000000),
      (- (716567 / 1000000), 681718 / 1000000, 147621 / 1000000),
      (- (688191 / 1000000), 587785 / 1000000, 425325 / 1000000),
      (- (500000 / 1000000), 809017 / 1000000, 309017 / 1000000),
      (- (238856 / 1000000), 864188 / 1000000, 442863 / 1000000),
      (- (425325 / 1000000), 688191 / 1000000, 587785 / 1000000),
      (- (716567 / 1000000), 681718 / 1000000, - (147621 / 1000000)),
      (- (500000 / 1000000), 809017 / 1000000, - (309017 / 1000000)),
      (- (525731 / 1000000), 850651 / 1000000, 0),
      (0, 850651 / 1000000, - (525731 / 1000000)),
      (- (238856 / 1000000), 864188 / 1000000, - (442863 / 1000000)),
      (0, 955423 / 1000000, - (295242 / 1000000)),
      (- (262866 / 1000000), 951056 / 1000000, - (162460 / 1000000)),
      (0, 1, 0),
      (0, 955423 / 1000000, 295242 / 1000000),
      (- (262866 / 1000000), 951056 / 1000000, 162460 / 1000000),
      (238856 / 1000000, 864188 / 1000000, 442863 / 1000000),
      (262866 / 1000000, 951056 / 1000000, 162460 / 1000000),
      (500000 / 1000000, 809017 / 1000000, 309017 / 1000000),
      (238856 / 1000000, 864188 / 1000000, - (442863 / 1000000)),
      (262866 / 1000000, 951056 / 1000000, - (162460 / 1000000)),
      (500000 / 1000000, 809017 / 1000000, - (309017 / 1000000)),
      (850651 / 1000000, 525731 / 1000000, 0),
      (716567 / 1000000, 681718 / 1000000, 147621 / 1000000),
      (716567 / 1000000, 681718 / 1000000, - (147621 / 1000000)),
      (525731 / 1000000, 850651 / 1000000, 0),
      (425325 / 1000000, 688191 / 1000000, 587785 / 1000000),
      (864188 / 1000000, 442863 / 1000000, 238856 / 1000000),
      (688191 / 1000000, 587785 / 1000000, 425325 / 1000000),
      (809017 / 1000000, 309017 / 1000000, 500000 / 1000000),
      (681718 / 1000000, 147621 / 1000000, 716567 / 1000000),
      (587785 / 1000000, 425325 / 1000000, 688191 / 1000000),
      (955423 / 1000000, 295242 / 1000000, 0),
      (1, 0, 0),
      (951056 / 1000000, 162460 / 1000000, 262866 / 1000000),
      (850651 / 1000000, - (525731 / 1000000), 0),
      (955423 / 1000000, - (295242 / 1000000), 0),
      (864188 / 1000000, - (442863 / 1000000), 238856 / 1000000),
      (951056 / 1000000, - (162460 / 1000000), 262866 / 1000000),
      (809017 / 1000000, - (309017 / 1000000), 500000 / 1000000),
      (681718 / 1000000, - (147621 / 1000000), 716567 / 1000000),
      (850651 / 1000000, 0, 525731 / 1000000),
      (864188 / 1000000, 442863 / 1000000, - (238856 / 1000000)),
      (809017 / 1000000, 309017 / 1000000, - (500000 / 1000000)),
      (951056 / 1000000, 162460 / 1000000, - (262866 / 1000000)),
      (525731 / 1000000, 0, - (850651 / 1000000)),
      (681718 / 1000000, 147621 / 1000000, - (716567 / 1000000)),
      (681718 / 1000000, - (147621 / 1000000), - (716567 / 1000000)),
      (850651 / 1000000, 0, - (525731 / 1000000)),
      (809017 / 1000000, - (309017 / 1000000), - (500000 / 1000000)),
      (864188 / 1000000, - (442863 / 1000000), - (238856 / 1000000)),
      (951056 / 1000000, - (162460 / 1000000), - (262866 / 1000000)),
      (147621 / 1000000, 716567 / 1000000, - (681718 / 1000000)),
      (309017 / 1000000, 500000 / 1000000, - (809017 / 1000000)),
      (425325 / 1000000, 688191 / 1000000, - (587785 / 1000000)),
      (442863 / 1000000, 238856 / 1000000, - (864188 / 1000000)),
      (587785 / 1000000, 425325 / 1000000, - (688191 / 1000000)),
      (688191 / 1000000, 587785 / 1000000, - (425325 / 1000000)),
      (- (147621 / 1000000), 716567 / 1000000, - (681718 / 1000000)),
      (- (309017 / 1000000), 500000 / 1000000, - (809017 / 1000000)),
      (0, 525731 / 1000000, - (850651 / 1000000)),
      (- (525731 / 1000000), 0, - (850651 / 1000000)),
      (- (442863 / 1000000), 238856 / 1000000, - (864188 / 1000000)),
      (- (295242 / 1000000), 0, - (955423 / 1000000)),
      (- (162460 / 1000000), 262866 / 1000000, - (951056 / 1000000)),
      (0, 0, -1),
      (295242 / 1000000, 0, - (955423 / 1000000)),
      (162460 / 1000000, 262866 / 1000000, - (951056 / 1000000)),
      (- (442863 / 1000000), - (238856 / 1000000), - (864188 / 1000000)),
      (- (309017 / 1000000), - (500000 / 1000000), - (809017 / 1000000)),
      (- (162460 / 1000000), - (262866 / 1000000), - (951056 / 1000000)),
      (0, - (850651 / 1000000), - (525731 / 1000000)),
      (- (147621 / 1000000), - (716567 / 1000000), - (681718 / 1000000)),
      (147621 / 1000000, - (716567 / 1000000), - (681718 / 1000000)),
      (0, - (525731 / 1000000), - (850651 / 1000000)),
      (309017 / 1000000, - (500000 / 1000000), - (809017 / 1000000)),
      (442863 / 1000000, - (238856 / 1000000), - (864188 / 1000000)),
      (162460 / 1000000, - (262866 / 1000000), - (951056 / 1000000)),
      (238856 / 1000000, - (864188 / 1000000), - (442863 / 1000000)),
      (500000 / 1000000, - (809017 / 1000000), - (309017 / 1000000)),
      (425325 / 1000000, - (688191 / 1000000), - (587785 / 1000000)),
      (716567 / 1000000, - (681718 / 1000000), - (147621 / 1000000)),
      (688191 / 1000000, - (587785 / 1000000), - (425325 / 1000000)),
      (587785 / 1000000, - (425325 / 1000000), - (688191 / 1000000)),
      (0, - (955423 / 1000000), - (295242 / 1000000)),
      (0, -1, 0),
      (262866 / 1000000, - (951056 / 1000000), - (162460 / 1000000)),
      (0, - (850651 / 1000000), 525731 / 1000000),
      (0, - (955423 / 1000000), 295242 / 1000000),
      (238856 / 1000000, - (864188 / 1000000), 442863 / 1000000),
      (262866 / 1000000, - (951056 / 1000000), 162460 / 1000000),
      (500000 / 1000000, - (809017 / 1000000), 309017 / 1000000),
      (716567 / 1000000, - (681718 / 1000000), 147621 / 1000000),
      (525731 / 1000000, - (850651 / 1000000), 0),
      (- (238856 / 1000000), - (864188 / 1000000), - (442863 / 1000000)),
      (- (500000 / 1000000), - (809017 / 1000000), - (309017 / 1000000)),
      (- (262866 / 1000000), - (951056 / 1000000), - (162460 / 1000000)),
      (- (850651 / 1000000), - (525731 / 1000000), 0),
      (- (716567 / 1000000), - (681718 / 1000000), - (147621 / 1000000)),
      (- (716567 / 1000000), - (681718 / 1000000), 147621 / 1000000),
      (- (525731 / 1000000), - (850651 / 1000000), 0),
      (- (500000 / 1000000), - (809017 / 1000000), 309017 / 1000000),
      (- (238856 / 1000000), - (864188 / 1000000), 442863 / 1000000),
      (- (262866 / 1000000), - (951056 / 1000000), 162460 / 1000000),
      (- (864188 / 1000000), - (442863 / 1000000), 238856 / 1000000),
      (- (809017 / 1000000), - (309017 / 1000000), 500000 / 1000000),
      (- (688191 / 1000000), - (587785 / 1000000), 425325 / 1000000),
      (- (681718 / 1000000), - (147621 / 1000000), 716567 / 1000000),
      (- (442863 / 1000000), - (238856 / 1000000), 864188 / 1000000),
      (- (587785 / 1000000), - (425325 / 1000000), 688191 / 1000000),
      (- (309017 / 1000000), - (500000 / 1000000), 809017 / 1000000),
      (- (147621 / 1000000), - (716567 / 1000000), 681718 / 1000000),
      (- (425325 / 1000000), - (688191 / 1000000), 587785 / 1000000),
      (- (162460 / 1000000), - (262866 / 1000000), 951056 / 1000000),
      (442863 / 1000000, - (238856 / 1000000), 864188 / 1000000),
      (162460 / 1000000, - (262866 / 1000000), 951056 / 1000000),
      (309017 / 1000000, - (500000 / 1000000), 809017 / 1000000),
      (147621 / 1000000, - (716567 / 1000000), 681718 / 1000000),
      (0, - (525731 / 1000000), 850651 / 1000000),
      (425325 / 1000000, - (688191 / 1000000), 587785 / 1000000),
      (587785 / 1000000, - (425325 / 1000000), 688191 / 1000000),
      (688191 / 1000000, - (587785 / 1000000), 425325 / 1000000),
      (- (955423 / 1000000), 295242 / 1000000, 0),
      (- (951056 / 1000000), 162460 / 1000000, 262866 / 1000000),
      (-1, 0, 0),
      (- (850651 / 1000000), 0, 525731 / 1000000),
      (- (955423 / 1000000), - (295242 / 1000000), 0),
      (- (951056 / 1000000), - (162460 / 1000000), 262866 / 1000000),
      (- (864188 / 1000000), 442863 / 1000000, - (238856 / 1000000)),
      (- (951056 / 1000000), 162460 / 1000000, - (262866 / 1000000)),
      (- (809017 / 1000000), 309017 / 1000000, - (500000 / 1000000)),
      (- (864188 / 1000000), - (442863 / 1000000), - (238856 / 1000000)),
      (- (951056 / 1000000), - (162460 / 1000000), - (262866 / 1000000)),
      (- (809017 / 1000000), - (309017 / 1000000), - (500000 / 1000000)),
      (- (681718 / 1000000), 147621 / 1000000, - (716567 / 1000000)),
      (- (681718 / 1000000), - (147621 / 1000000), - (716567 / 1000000)),
      (- (850651 / 1000000), 0, - (525731 / 1000000)),
      (- (688191 / 1000000), 587785 / 1000000, - (425325 / 1000000)),
      (- (587785 / 1000000), 425325 / 1000000, - (688191 / 1000000)),
      (- (425325 / 1000000), 688191 / 1000000, - (587785 / 1000000)),
      (- (425325 / 1000000), - (688191 / 1000000), - (587785 / 1000000)),
      (- (587785 / 1000000), - (425325 / 1000000), - (688191 / 1000000)),
      (- (688191 / 1000000), - (587785 / 1000000), - (425325 / 1000000)) ]"

text \<open>\<open>sNormals[i]\<close>: defined for the 162 entries only.\<close>

definition sNormal_at :: "int \<Rightarrow> (real \<times> real \<times> real) option" where
  "sNormal_at i = (if 0 \<le> i \<and> i < 162 then Some (sNormals ! nat i) else None)"

subsection \<open>Generating the vertices\<close>

text \<open>\<open>Md2::Vertex\<close>: position, normal and texture coordinates.\<close>

record Vertex =
  v_p :: "real \<times> real \<times> real"
  v_n :: "real \<times> real \<times> real"
  v_st :: "real \<times> real"


text \<open>\<open>mFrames[k]\<close>\<close>

definition frame_at :: "Md2 \<Rightarrow> int \<Rightarrow> Frame option" where
  "frame_at m k =
    (case mFrames m of
       None \<Rightarrow> None
     | Some fs \<Rightarrow> if 0 \<le> k \<and> k < int (length fs) then Some (fs ! nat k) else None)"

text \<open>\<open>mTriangles[i].iPos[j]\<close> and \<open>mTriangles[i].iSt[j]\<close>: a triangle is twelve bytes.\<close>

definition iPos :: "Md2 \<Rightarrow> nat \<Rightarrow> nat \<Rightarrow> int option" where
  "iPos m i j = (case mTriangles m of None \<Rightarrow> None | Some t \<Rightarrow> uint16_at t (12 * i + 2 * j))"

definition iSt :: "Md2 \<Rightarrow> nat \<Rightarrow> nat \<Rightarrow> int option" where
  "iSt m i j = (case mTriangles m of None \<Rightarrow> None | Some t \<Rightarrow> uint16_at t (12 * i + 6 + 2 * j))"

text \<open>\<open>frame->vertices[v]\<close>: the bytes x, y, z and n of a vertex.\<close>

definition frame_vertex :: "Frame \<Rightarrow> int \<Rightarrow> (int \<times> int \<times> int \<times> int) option" where
  "frame_vertex f v =
    (case vertices f of
       None \<Rightarrow> None
     | Some vm \<Rightarrow>
        do {
          x \<leftarrow> uint8_at vm (4 * nat v);
          y \<leftarrow> uint8_at vm (4 * nat v + 1);
          z \<leftarrow> uint8_at vm (4 * nat v + 2);
          n \<leftarrow> uint8_at vm (4 * nat v + 3);
          Some (x, y, z, n)
        })"

text \<open>
  \<open>pos[k] = frame->scale[k] * vert->x + frame->translation[k]\<close>, for the corner \<open>j\<close>
  of the triangle \<open>i\<close> in the frame \<open>k\<close>.
\<close>

definition frame_position :: "Md2 \<Rightarrow> int \<Rightarrow> nat \<Rightarrow> nat \<Rightarrow> (real \<times> real \<times> real) option" where
  "frame_position m k i j =
    do {
      f \<leftarrow> frame_at m k;
      v \<leftarrow> iPos m i j;
      (x, y, z, n) \<leftarrow> frame_vertex f v;
      sx \<leftarrow> float_at (scale f) 0;
      sy \<leftarrow> float_at (scale f) 4;
      sz \<leftarrow> float_at (scale f) 8;
      tx \<leftarrow> float_at (translation f) 0;
      ty \<leftarrow> float_at (translation f) 4;
      tz \<leftarrow> float_at (translation f) 8;
      Some (sx * of_int x + tx, sy * of_int y + ty, sz * of_int z + tz)
    }"

text \<open>\<open>sNormals[vert->n]\<close>, for the same corner.\<close>

definition frame_normal :: "Md2 \<Rightarrow> int \<Rightarrow> nat \<Rightarrow> nat \<Rightarrow> (real \<times> real \<times> real) option" where
  "frame_normal m k i j =
    do {
      f \<leftarrow> frame_at m k;
      v \<leftarrow> iPos m i j;
      (x, y, z, n) \<leftarrow> frame_vertex f v;
      sNormal_at n
    }"

text \<open>
  \<open>float(texCoord->s) / mSkinWidth\<close> and \<open>1.0f - float(texCoord->t) / mSkinHeight\<close>;
  a division by zero gives no finite number.
\<close>

definition tex_coord :: "Md2 \<Rightarrow> nat \<Rightarrow> nat \<Rightarrow> (real \<times> real) option" where
  "tex_coord m i j =
    do {
      c \<leftarrow> iSt m i j;
      tc \<leftarrow> mTexCoords m;
      s \<leftarrow> int16_at tc (4 * nat c);
      t \<leftarrow> int16_at tc (4 * nat c + 2);
      if mSkinWidth m = 0 \<or> mSkinHeight m = 0 then None
      else Some (of_int s / of_int (mSkinWidth m), 1 - of_int t / of_int (mSkinHeight m))
    }"

definition mix :: "real \<Rightarrow> real \<times> real \<times> real \<Rightarrow> real \<times> real \<times> real \<Rightarrow> real \<times> real \<times> real" where
  "mix lerp a b =
    (case a of (ax, ay, az) \<Rightarrow> case b of (bx, by, bz) \<Rightarrow>
      ((1 - lerp) * ax + lerp * bx, (1 - lerp) * ay + lerp * by, (1 - lerp) * az + lerp * bz))"

text \<open>The body of the two loops: the record of the corner \<open>j\<close> of the triangle \<open>i\<close>.\<close>

definition gen_vertex :: "Md2 \<Rightarrow> real \<Rightarrow> int \<Rightarrow> int \<Rightarrow> nat \<Rightarrow> nat \<Rightarrow> Vertex option" where
  "gen_vertex m lerp activeFrameIdx nextFrame i j =
    do {
      normA \<leftarrow> frame_normal m activeFrameIdx i j;
      normB \<leftarrow> frame_normal m nextFrame i j;
      posA \<leftarrow> frame_position m activeFrameIdx i j;
      posB \<leftarrow> frame_position m nextFrame i j;
      st \<leftarrow> tex_coord m i j;
      Some \<lparr>v_p = mix lerp posA posB, v_n = mix lerp normA normB, v_st = st\<rparr>
    }"

text \<open>\<open>index = i*3+j\<close>, a \<open>uint16_t\<close>, and the store \<open>vertices[index] = ...\<close>.\<close>

definition index_of :: "nat \<times> nat \<Rightarrow> nat" where
  "index_of ij = nat (to_uint16 (int (fst ij) * 3 + int (snd ij)))"

definition store :: "Vertex list \<Rightarrow> nat \<Rightarrow> Vertex \<Rightarrow> Vertex list option" where
  "store buf k v = (if k < length buf then Some (buf[k := v]) else None)"


fun gen_loop ::
  "Md2 \<Rightarrow> real \<Rightarrow> int \<Rightarrow> int \<Rightarrow> (nat \<times> nat) list \<Rightarrow> Vertex list \<Rightarrow> Vertex list option" where
  "gen_loop m lerp a b [] buf = Some buf"
| "gen_loop m lerp a b (ij # ijs) buf =
    (case gen_vertex m lerp a b (fst ij) (snd ij) of
       None \<Rightarrow> None
     | Some v \<Rightarrow>
        (case store buf (index_of ij) v of
           None \<Rightarrow> None
         | Some buf' \<Rightarrow> gen_loop m lerp a b ijs buf'))"



subsection \<open>What a file holds, and how a call ended\<close>

text \<open>The header fields of a file, read at their offsets; \<open>None\<close> past its end.\<close>

definition file_header :: "byte list \<Rightarrow> Md2Header" where
  "file_header bs = header_of (map Some bs)"

primrec thrown :: "outcome \<Rightarrow> Md2Exception option" where
  "thrown (Returns m) = None"
| "thrown (Throws e m) = Some e"
| "thrown Undefined = None"



text \<open>Files for the examples: the four bytes of an \<open>int32_t\<close>, and a header.\<close>

definition int32_bytes :: "int \<Rightarrow> byte list" where
  "int32_bytes x = [word_of_int x, word_of_int (x div 256), word_of_int (x div 65536),
                    word_of_int (x div 16777216)]"

definition header_bytes :: "int list \<Rightarrow> byte list" where
  "header_bytes xs = concat (map int32_bytes xs)"

subsection \<open>Models for the examples\<close>














section \<open>Properties of the player\<close>

lemma fmod_of_int:
  assumes "0 \<le> d" "0 < n"
  shows "fmod (of_int d) (of_int n) = of_int (d mod n)"
proof -
  have "(0::real) \<le> of_int d / of_int n" using assms by simp
  then have "trunc (of_int d / of_int n) = d div n"
    by (simp add: trunc_def floor_divide_of_int_eq)
  then have "fmod (of_int d) (of_int n) = of_int d - of_int (d div n) * of_int n"
    by (simp add: fmod_def)
  also have "\<dots> = of_int (d - (d div n) * n)" by simp
  also have "d - (d div n) * n = d mod n" by (simp add: minus_div_mult_eq_mod)
  finally show ?thesis .
qed

lemma wrap_eq:
  assumes ok: "entry_ok a" and f: "of_int (last_frame a) \<le> f"
  shows "modf_frac f + fmod (modf_int f - of_int (start a)) (of_int (FrameCount a))
           + of_int (start a)
         = (f - of_int \<lfloor>f\<rfloor>)
           + of_int (start a + (\<lfloor>f\<rfloor> - start a) mod (last_frame a - start a + 1))"
proof -
  from ok have s: "0 \<le> start a" "start a \<le> last_frame a" "last_frame a \<le> 198"
    by (simp_all add: entry_ok_def)
  have f0: "0 \<le> f" using s f by linarith
  have k: "last_frame a \<le> \<lfloor>f\<rfloor>" using f by (simp add: le_floor_iff)
  have t: "trunc f = \<lfloor>f\<rfloor>" using f0 by (simp add: trunc_def)
  have n: "FrameCount a = last_frame a - start a + 1"
    using s by (simp add: FrameCount_def to_int16_def)
  have "fmod (modf_int f - of_int (start a)) (of_int (FrameCount a))
        = fmod (of_int (\<lfloor>f\<rfloor> - start a)) (of_int (last_frame a - start a + 1))"
    by (simp add: modf_int_def t n)
  also have "\<dots> = of_int ((\<lfloor>f\<rfloor> - start a) mod (last_frame a - start a + 1))"
    using s k by (intro fmod_of_int) linarith+
  finally show ?thesis by (simp add: modf_frac_def t)
qed

lemma wrap_range:
  assumes ok: "entry_ok a" and f: "of_int (last_frame a) \<le> f"
  defines "w \<equiv> modf_frac f + fmod (modf_int f - of_int (start a)) (of_int (FrameCount a))
                  + of_int (start a)"
  shows "of_int (start a) \<le> w" and "w < of_int (last_frame a) + 1"
    and "f < of_int (last_frame a) + 1 \<Longrightarrow> w = f"
proof -
  from ok have s: "0 \<le> start a" "start a \<le> last_frame a" "last_frame a \<le> 198"
    by (simp_all add: entry_ok_def)
  define r where "r = (\<lfloor>f\<rfloor> - start a) mod (last_frame a - start a + 1)"
  have w: "w = (f - of_int \<lfloor>f\<rfloor>) + of_int (start a + r)"
    unfolding w_def r_def by (rule wrap_eq [OF ok f])
  have r0: "0 \<le> r" unfolding r_def by (rule pos_mod_sign) (use s in linarith)
  have r1: "r < last_frame a - start a + 1"
    unfolding r_def by (rule pos_mod_bound) (use s in linarith)
  have fr: "0 \<le> f - of_int \<lfloor>f\<rfloor>" "f - of_int \<lfloor>f\<rfloor> < 1" by linarith+
  have w': "w = (f - of_int \<lfloor>f\<rfloor>) + of_int (start a) + of_int r"
    using w by simp
  have r0': "(0::real) \<le> of_int r" using r0 by simp
  have r1': "of_int (start a) + of_int r \<le> (of_int (last_frame a) :: real)"
  proof -
    have "start a + r \<le> last_frame a" using r1 by linarith
    then have "(of_int (start a + r) :: real) \<le> of_int (last_frame a)"
      by (simp only: of_int_le_iff)
    then show ?thesis by simp
  qed
  show "of_int (start a) \<le> w" using w' r0' fr by linarith
  show "w < of_int (last_frame a) + 1" using w' r1' fr by linarith
  show "w = f" if "f < of_int (last_frame a) + 1"
  proof -
    have "\<lfloor>f\<rfloor> = last_frame a" using f that by (simp add: floor_unique)
    then have "r = last_frame a - start a" using s by (simp add: r_def)
    then show ?thesis using w \<open>\<lfloor>f\<rfloor> = last_frame a\<close> by simp
  qed
qed

lemma sAnimations_ok: "list_all (\<lambda>a. entry_ok a \<and> 0 \<le> fps a) sAnimations"
  by (simp add: sAnimations_def mk_anim_def entry_ok_def)

lemma animation_at_ok:
  assumes "animation_at i = Some a"
  shows "entry_ok a" and "0 \<le> fps a"
proof -
  have "length sAnimations = 21" by (simp add: sAnimations_def)
  with assms have "a \<in> set sAnimations"
    by (auto simp: animation_at_def split: if_splits)
  with sAnimations_ok show "entry_ok a" and "0 \<le> fps a"
    by (simp_all add: list_all_iff)
qed

lemma Update_in_sequence:
  assumes inseq: "in_sequence m" and sp: "0 \<le> mSpeed m" and dt: "0 \<le> dt"
  shows "\<exists>m'. Update dt m = Some m' \<and> in_sequence m' \<and>
           mActiveAnimation m' = mActiveAnimation m \<and> mSpeed m' = mSpeed m"
proof -
  from inseq obtain a where a: "animation_at (mActiveAnimation m) = Some a"
    and lo: "start a \<le> \<lfloor>mActiveFrame m\<rfloor>" and hi: "\<lfloor>mActiveFrame m\<rfloor> \<le> last_frame a"
    by (auto simp: in_sequence_def split: option.splits)
  note ok = animation_at_ok [OF a]
  define f where "f = mActiveFrame m + mSpeed m * dt * fps a"
  have "0 \<le> mSpeed m * dt * fps a" using sp dt ok(2) by simp
  then have ge: "mActiveFrame m \<le> f" by (simp add: f_def)
  have lo': "of_int (start a) \<le> mActiveFrame m" using lo by (simp add: le_floor_iff)
  show ?thesis
  proof (cases "mIsPlaying m")
    case False
    then show ?thesis using inseq by (simp add: Update_def)
  next
    case True
    show ?thesis
    proof (cases "of_int (last_frame a) \<le> f")
      case w: True
      define w where "w = modf_frac f + fmod (modf_int f - of_int (start a)) (of_int (FrameCount a))
                  + of_int (start a)"
      have u: "Update dt m = Some (m\<lparr>mActiveFrame := w\<rparr>)"
        using True a w by (simp add: Update_def f_def w_def Let_def)
      have "of_int (start a) \<le> w" "w < of_int (last_frame a) + 1"
        unfolding w_def by (rule wrap_range [OF ok(1) w])+
      then have "start a \<le> \<lfloor>w\<rfloor>" "\<lfloor>w\<rfloor> \<le> last_frame a"
        by (simp_all add: le_floor_iff floor_le_iff)
      then show ?thesis using u a by (simp add: in_sequence_def)
    next
      case nw: False
      have u: "Update dt m = Some (m\<lparr>mActiveFrame := f\<rparr>)"
        using True a nw by (simp add: Update_def f_def Let_def)
      have "of_int (start a) \<le> f" using lo' ge by linarith
      then have "start a \<le> \<lfloor>f\<rfloor>" by (simp add: le_floor_iff)
      moreover have "\<lfloor>f\<rfloor> \<le> last_frame a" using nw by (simp add: floor_le_iff)
      ultimately show ?thesis using u a by (simp add: in_sequence_def)
    qed
  qed
qed




lemma animation_at_Some:
  "0 \<le> i \<Longrightarrow> i < 21 \<Longrightarrow> animation_at i = Some (sAnimations ! nat i)"
  by (simp add: animation_at_def)

lemma start_le_last:
  assumes "0 \<le> i" "i < 21"
  shows "start (sAnimations ! nat i) \<le> last_frame (sAnimations ! nat i)"
  using animation_at_ok(1) [OF animation_at_Some [OF assms]] by (simp add: entry_ok_def)

lemma NextAnimation_step:
  assumes "0 \<le> mActiveAnimation m" "mActiveAnimation m < 20"
  shows "NextAnimation m =
     Some (m\<lparr>mActiveAnimation := (mActiveAnimation m + 1) mod 20,
             mActiveFrame := of_int (start (sAnimations ! nat ((mActiveAnimation m + 1) mod 20)))\<rparr>)"
proof (cases "mActiveAnimation m = 19")
  case True
  then show ?thesis
    by (simp add: NextAnimation_def to_int16_def ANIMATION_BOOM_def ANIMATION_STAND_def
        animation_at_def Let_def add.commute)
next
  case False
  with assms have "mActiveAnimation m + 1 < 20" by simp
  then show ?thesis using assms
    by (simp add: NextAnimation_def to_int16_def ANIMATION_BOOM_def ANIMATION_STAND_def
        animation_at_def Let_def add.commute)
qed

lemma PreviousAnimation_step:
  assumes "0 \<le> mActiveAnimation m" "mActiveAnimation m < 20"
  shows "PreviousAnimation m =
     Some (m\<lparr>mActiveAnimation := (mActiveAnimation m - 1) mod 20,
             mActiveFrame := of_int (start (sAnimations ! nat ((mActiveAnimation m - 1) mod 20)))\<rparr>)"
proof (cases "mActiveAnimation m = 0")
  case True
  then show ?thesis
    by (simp add: PreviousAnimation_def to_int16_def ANIMATION_BOOM_def animation_at_def Let_def)
next
  case False
  with assms have "0 \<le> mActiveAnimation m - 1" "mActiveAnimation m - 1 < 20" by simp_all
  then show ?thesis using assms False
    by (simp add: PreviousAnimation_def to_int16_def ANIMATION_BOOM_def animation_at_def Let_def)
qed

text \<open>
  C2 (amended). For every playback state whose active sequence is one of the first 20
  entries of the table (indices 0 to 19), \<open>NextAnimation\<close> advances the index by 1 and
  wraps from entry 19 to entry 0, and \<open>PreviousAnimation\<close> decrements it and wraps from
  entry 0 to entry 19: the last entry of the table (index 20) is skipped. Both set the
  cursor to the start frame of the new sequence, with no fractional part, and change
  nothing else.
\<close>

theorem Next_Previous_wrap_at_19:
  assumes "0 \<le> mActiveAnimation m" "mActiveAnimation m < 20"
  shows "NextAnimation m =
     Some (m\<lparr>mActiveAnimation := (mActiveAnimation m + 1) mod 20,
             mActiveFrame := of_int (start (sAnimations ! nat ((mActiveAnimation m + 1) mod 20)))\<rparr>)
   \<and> PreviousAnimation m =
     Some (m\<lparr>mActiveAnimation := (mActiveAnimation m - 1) mod 20,
             mActiveFrame := of_int (start (sAnimations ! nat ((mActiveAnimation m - 1) mod 20)))\<rparr>)"
  using NextAnimation_step [OF assms] PreviousAnimation_step [OF assms] by simp

theorem Next_Previous_wrap_at_19_witness:
  "NextAnimation (Md2_default\<lparr>mActiveAnimation := 19\<rparr>)
     = Some (Md2_default\<lparr>mActiveAnimation := 0, mActiveFrame := 0\<rparr>)
   \<and> PreviousAnimation (Md2_default\<lparr>mActiveAnimation := 19\<rparr>)
     = Some (Md2_default\<lparr>mActiveAnimation := 18, mActiveFrame := 184\<rparr>)"
  using Next_Previous_wrap_at_19 [of "Md2_default\<lparr>mActiveAnimation := 19\<rparr>"]
  by (simp add: sAnimations_def mk_anim_def)

lemma player_inv_Next:
  assumes "player_inv m" "NextAnimation m = Some m'"
  shows "player_inv m'"
proof -
  from assms(1) have i: "0 \<le> mActiveAnimation m" "mActiveAnimation m < 20"
    by (simp_all add: player_inv_def)
  define j where "j = (mActiveAnimation m + 1) mod 20"
  have j: "0 \<le> j" "j < 20" by (simp_all add: j_def)
  then have "start (sAnimations ! nat j) \<le> last_frame (sAnimations ! nat j)"
    by (intro start_le_last) simp_all
  then have "(of_int (start (sAnimations ! nat j)) :: real) < of_int (last_frame (sAnimations ! nat j)) + 1"
    by linarith
  moreover have "m' = m\<lparr>mActiveAnimation := j, mActiveFrame := of_int (start (sAnimations ! nat j))\<rparr>"
    using NextAnimation_step [OF i] assms(2) by (simp add: j_def)
  ultimately show ?thesis using j by (simp add: player_inv_def)
qed

lemma player_inv_Previous:
  assumes "player_inv m" "PreviousAnimation m = Some m'"
  shows "player_inv m'"
proof -
  from assms(1) have i: "0 \<le> mActiveAnimation m" "mActiveAnimation m < 20"
    by (simp_all add: player_inv_def)
  define j where "j = (mActiveAnimation m - 1) mod 20"
  have j: "0 \<le> j" "j < 20" by (simp_all add: j_def)
  then have "start (sAnimations ! nat j) \<le> last_frame (sAnimations ! nat j)"
    by (intro start_le_last) simp_all
  then have "(of_int (start (sAnimations ! nat j)) :: real) < of_int (last_frame (sAnimations ! nat j)) + 1"
    by linarith
  moreover have "m' = m\<lparr>mActiveAnimation := j, mActiveFrame := of_int (start (sAnimations ! nat j))\<rparr>"
    using PreviousAnimation_step [OF i] assms(2) by (simp add: j_def)
  ultimately show ?thesis using j by (simp add: player_inv_def)
qed

lemma player_inv_Update:
  assumes "player_inv m" "Update dt m = Some m'"
  shows "player_inv m'"
proof -
  from assms(1) have i: "0 \<le> mActiveAnimation m" "mActiveAnimation m < 20"
    and c: "mActiveFrame m < of_int (last_frame (sAnimations ! nat (mActiveAnimation m))) + 1"
    by (simp_all add: player_inv_def)
  define a where "a = sAnimations ! nat (mActiveAnimation m)"
  have a: "animation_at (mActiveAnimation m) = Some a"
    using i by (simp add: a_def animation_at_def)
  note ok = animation_at_ok [OF a]
  define f where "f = mActiveFrame m + mSpeed m * dt * fps a"
  show ?thesis
  proof (cases "mIsPlaying m")
    case False
    then show ?thesis using assms by (simp add: Update_def)
  next
    case True
    show ?thesis
    proof (cases "of_int (last_frame a) \<le> f")
      case w: True
      define w where "w = modf_frac f + fmod (modf_int f - of_int (start a)) (of_int (FrameCount a))
                  + of_int (start a)"
      have u: "m' = m\<lparr>mActiveFrame := w\<rparr>"
        using True a w assms(2) by (simp add: Update_def f_def w_def Let_def)
      have "w < of_int (last_frame a) + 1"
        unfolding w_def by (rule wrap_range [OF ok(1) w])
      then show ?thesis using u i by (simp add: player_inv_def a_def)
    next
      case nw: False
      have u: "m' = m\<lparr>mActiveFrame := f\<rparr>"
        using True a nw assms(2) by (simp add: Update_def f_def Let_def)
      have "f < of_int (last_frame a) + 1" using nw by linarith
      then show ?thesis using u i by (simp add: player_inv_def a_def)
    qed
  qed
qed

lemma player_inv_apply_op:
  "player_inv m \<Longrightarrow> apply_op c m = Some m' \<Longrightarrow> player_inv m'"
proof (cases c)
  case OpPlay
  assume "player_inv m" "apply_op c m = Some m'"
  with OpPlay show ?thesis by (auto simp: player_inv_def Play_def)
next
  case OpPause
  assume "player_inv m" "apply_op c m = Some m'"
  with OpPause show ?thesis by (auto simp: player_inv_def Pause_def)
next
  case OpNext
  assume "player_inv m" "apply_op c m = Some m'"
  with OpNext show ?thesis by (auto intro: player_inv_Next)
next
  case OpPrevious
  assume "player_inv m" "apply_op c m = Some m'"
  with OpPrevious show ?thesis by (auto intro: player_inv_Previous)
next
  case (OpUpdate dt)
  assume "player_inv m" "apply_op c m = Some m'"
  with OpUpdate show ?thesis by (auto intro: player_inv_Update)
qed

lemma player_inv_run_ops:
  "player_inv m \<Longrightarrow> run_ops cs m = Some m' \<Longrightarrow> player_inv m'"
proof (induction cs arbitrary: m)
  case Nil
  then show ?case by simp
next
  case (Cons c cs)
  from Cons.prems(2) obtain m1 where m1: "apply_op c m = Some m1" "run_ops cs m1 = Some m'"
    by (auto split: option.splits)
  from player_inv_apply_op [OF Cons.prems(1) m1(1)] have "player_inv m1" .
  from Cons.IH [OF this m1(2)] show ?case .
qed

lemma player_inv_default: "player_inv Md2_default"
  by (simp add: player_inv_def Md2_default_def sAnimations_def mk_anim_def)

lemma reachable_inv: "reachable m \<Longrightarrow> player_inv m"
  unfolding reachable_def using player_inv_run_ops [OF player_inv_default] by blast

lemma run_ops_append:
  "run_ops (cs @ ds) m = (case run_ops cs m of None \<Rightarrow> None | Some m' \<Rightarrow> run_ops ds m')"
  by (induction cs arbitrary: m) (auto split: option.splits)

lemma reachable_step:
  assumes "reachable m" "apply_op c m = Some m'"
  shows "reachable m'"
proof -
  from assms(1) obtain cs where "run_ops cs Md2_default = Some m" by (auto simp: reachable_def)
  then have "run_ops (cs @ [c]) Md2_default = Some m'"
    using assms(2) by (simp add: run_ops_append)
  then show ?thesis unfolding reachable_def by blast
qed

lemma reachable_default: "reachable Md2_default"
proof -
  have "run_ops [] Md2_default = Some Md2_default" by simp
  then show ?thesis unfolding reachable_def by blast
qed

lemma reachable_index:
  "n < 20 \<Longrightarrow> \<exists>m. reachable m \<and> mActiveAnimation m = int n"
proof (induction n)
  case 0
  have "mActiveAnimation Md2_default = 0" by (simp add: Md2_default_def)
  then show ?case using reachable_default by auto
next
  case (Suc n)
  then obtain m where m: "reachable m" "mActiveAnimation m = int n" by auto
  have i: "0 \<le> mActiveAnimation m" "mActiveAnimation m < 20" using m Suc.prems by simp_all
  define m' where "m' = m\<lparr>mActiveAnimation := (mActiveAnimation m + 1) mod 20,
             mActiveFrame := of_int (start (sAnimations ! nat ((mActiveAnimation m + 1) mod 20)))\<rparr>"
  have "apply_op OpNext m = Some m'" using NextAnimation_step [OF i] by (simp add: m'_def)
  then have "reachable m'" using m(1) reachable_step by blast
  moreover have "mActiveAnimation m' = int (Suc n)" using m(2) Suc.prems by (simp add: m'_def)
  ultimately show ?case by blast
qed

text \<open>
  C10. The active sequence indices of the states reachable from the default state by
  \<open>Play\<close>, \<open>Pause\<close>, \<open>NextAnimation\<close>, \<open>PreviousAnimation\<close> and \<open>Update\<close> are exactly
  0 to 19: index 20, the last entry of the table, is never active.
\<close>

theorem BOOM_never_active:
  "(\<exists>m. reachable m \<and> mActiveAnimation m = i) = (0 \<le> i \<and> i \<le> 19)"
proof
  assume "\<exists>m. reachable m \<and> mActiveAnimation m = i"
  then obtain m where "reachable m" "mActiveAnimation m = i" by blast
  then show "0 \<le> i \<and> i \<le> 19" using reachable_inv [of m] by (simp add: player_inv_def)
next
  assume "0 \<le> i \<and> i \<le> 19"
  then have "nat i < 20" "int (nat i) = i" by linarith+
  then show "\<exists>m. reachable m \<and> mActiveAnimation m = i" using reachable_index [of "nat i"] by simp
qed

theorem BOOM_never_active_witness:
  "(\<exists>m. reachable m \<and> mActiveAnimation m = 19) \<and>
   \<not> (\<exists>m. reachable m \<and> mActiveAnimation m = ANIMATION_BOOM)"
  using BOOM_never_active [of 19] BOOM_never_active [of 20] by (simp add: ANIMATION_BOOM_def)

text \<open>
  C7. In every state reachable from the default state, \<open>NextAnimation\<close> followed by
  \<open>PreviousAnimation\<close>, and \<open>PreviousAnimation\<close> followed by \<open>NextAnimation\<close>, give the
  state back with its active sequence index, the cursor being the start frame of
  that sequence.
\<close>

theorem Next_then_Previous:
  assumes "reachable m"
  shows "Option.bind (NextAnimation m) PreviousAnimation =
           Some (m\<lparr>mActiveFrame := of_int (start (sAnimations ! nat (mActiveAnimation m)))\<rparr>)
       \<and> Option.bind (PreviousAnimation m) NextAnimation =
           Some (m\<lparr>mActiveFrame := of_int (start (sAnimations ! nat (mActiveAnimation m)))\<rparr>)"
proof -
  from reachable_inv [OF assms] have i: "0 \<le> mActiveAnimation m" "mActiveAnimation m < 20"
    by (simp_all add: player_inv_def)
  define j where "j = (mActiveAnimation m + 1) mod 20"
  define k where "k = (mActiveAnimation m - 1) mod 20"
  have j: "0 \<le> j" "j < 20" "(j - 1) mod 20 = mActiveAnimation m"
    using i by (simp_all add: j_def mod_diff_left_eq)
  have k: "0 \<le> k" "k < 20" "(k + 1) mod 20 = mActiveAnimation m"
    using i by (simp_all add: k_def mod_add_left_eq)
  have n: "NextAnimation m =
      Some (m\<lparr>mActiveAnimation := j, mActiveFrame := of_int (start (sAnimations ! nat j))\<rparr>)"
    using NextAnimation_step [OF i] by (simp add: j_def)
  have p: "PreviousAnimation m =
      Some (m\<lparr>mActiveAnimation := k, mActiveFrame := of_int (start (sAnimations ! nat k))\<rparr>)"
    using PreviousAnimation_step [OF i] by (simp add: k_def)
  have "PreviousAnimation (m\<lparr>mActiveAnimation := j, mActiveFrame := of_int (start (sAnimations ! nat j))\<rparr>)
      = Some (m\<lparr>mActiveFrame := of_int (start (sAnimations ! nat (mActiveAnimation m)))\<rparr>)"
    using PreviousAnimation_step [of "m\<lparr>mActiveAnimation := j, mActiveFrame := of_int (start (sAnimations ! nat j))\<rparr>"] j
    by simp
  moreover have "NextAnimation (m\<lparr>mActiveAnimation := k, mActiveFrame := of_int (start (sAnimations ! nat k))\<rparr>)
      = Some (m\<lparr>mActiveFrame := of_int (start (sAnimations ! nat (mActiveAnimation m)))\<rparr>)"
    using NextAnimation_step [of "m\<lparr>mActiveAnimation := k, mActiveFrame := of_int (start (sAnimations ! nat k))\<rparr>"] k
    by simp
  ultimately show ?thesis by (simp add: n p)
qed

theorem Next_then_Previous_witness:
  "reachable (Md2_default\<lparr>mActiveAnimation := 19, mActiveFrame := 190\<rparr>) \<and>
   Option.bind (NextAnimation (Md2_default\<lparr>mActiveAnimation := 19, mActiveFrame := 190\<rparr>))
       PreviousAnimation
     = Some (Md2_default\<lparr>mActiveAnimation := 19, mActiveFrame := 190\<rparr>) \<and>
   Option.bind (PreviousAnimation (Md2_default\<lparr>mActiveAnimation := 19, mActiveFrame := 190\<rparr>))
       NextAnimation
     = Some (Md2_default\<lparr>mActiveAnimation := 19, mActiveFrame := 190\<rparr>)"
proof -
  have "run_ops [OpPrevious] Md2_default
      = Some (Md2_default\<lparr>mActiveAnimation := 19, mActiveFrame := 190\<rparr>)"
    by (simp add: PreviousAnimation_def Md2_default_def to_int16_def ANIMATION_BOOM_def
        animation_at_def sAnimations_def mk_anim_def Let_def)
  then have r: "reachable (Md2_default\<lparr>mActiveAnimation := 19, mActiveFrame := 190\<rparr>)"
    unfolding reachable_def by blast
  show ?thesis using Next_then_Previous [OF r] r by (simp add: sAnimations_def mk_anim_def)
qed

lemma Update_zero:
  assumes "player_inv m"
  shows "Update 0 m = Some m"
proof -
  from assms have i: "0 \<le> mActiveAnimation m" "mActiveAnimation m < 20"
    and c: "mActiveFrame m < of_int (last_frame (sAnimations ! nat (mActiveAnimation m))) + 1"
    by (simp_all add: player_inv_def)
  define a where "a = sAnimations ! nat (mActiveAnimation m)"
  have a: "animation_at (mActiveAnimation m) = Some a"
    using i by (simp add: a_def animation_at_def)
  note ok = animation_at_ok [OF a]
  show ?thesis
  proof (cases "mIsPlaying m \<and> of_int (last_frame a) \<le> mActiveFrame m")
    case True
    then have "modf_frac (mActiveFrame m)
        + fmod (modf_int (mActiveFrame m) - of_int (start a)) (of_int (FrameCount a))
        + of_int (start a) = mActiveFrame m"
      using wrap_range(3) [OF ok(1), of "mActiveFrame m"] c by (simp add: a_def)
    then show ?thesis using True a by (simp add: Update_def)
  next
    case False
    then show ?thesis using a by (auto simp: Update_def)
  qed
qed

text \<open>
  C8. In every state reachable from the default state, any number of \<open>Update(0)\<close> calls
  leaves the cursor (and the rest of the state) as it is, whether the cursor is below
  the last frame of the sequence or in the wrap branch.
\<close>

theorem Update_zero_identity:
  assumes "reachable m"
  shows "run_ops (replicate n (OpUpdate 0)) m = Some m"
  using Update_zero [OF reachable_inv [OF assms]] by (induction n) simp_all

theorem Update_zero_identity_witness:
  "reachable (Md2_default\<lparr>mActiveFrame := 315/8\<rparr>) \<and>
   run_ops (replicate 3 (OpUpdate 0)) (Md2_default\<lparr>mActiveFrame := 315/8\<rparr>)
     = Some (Md2_default\<lparr>mActiveFrame := 315/8\<rparr>)"
proof -
  have "run_ops [OpUpdate (35/8)] Md2_default = Some (Md2_default\<lparr>mActiveFrame := 315/8\<rparr>)"
    by (simp add: Update_def Md2_default_def animation_at_def sAnimations_def mk_anim_def
        modf_frac_def modf_int_def fmod_def trunc_def FrameCount_def to_int16_def)
  then have r: "reachable (Md2_default\<lparr>mActiveFrame := 315/8\<rparr>)"
    unfolding reachable_def by blast
  show ?thesis using Update_zero_identity [OF r, of 3] r by simp
qed

text \<open>
  C2, as the specification states it, fails: \<open>NextAnimation\<close> at the second-to-last
  entry (index 19) yields the first entry, not the last one (index 20), and
  \<open>PreviousAnimation\<close> at the first entry yields index 19.
\<close>

theorem NextAnimation_skips_BOOM:
  "NextAnimation (Md2_default\<lparr>mActiveAnimation := 19, mActiveFrame := 190\<rparr>) = Some Md2_default
   \<and> map_option mActiveAnimation (PreviousAnimation Md2_default) = Some 19
   \<and> ANIMATION_BOOM = 20 \<and> length sAnimations = 21"
  by (simp add: NextAnimation_def PreviousAnimation_def Md2_default_def to_int16_def
      ANIMATION_BOOM_def ANIMATION_STAND_def animation_at_def sAnimations_def mk_anim_def Let_def)

lemma in_sequence_start:
  assumes "0 \<le> j" "j < 20"
  shows "in_sequence (m\<lparr>mActiveAnimation := j, mActiveFrame := of_int (start (sAnimations ! nat j))\<rparr>)"
  using assms start_le_last [of j] by (simp add: in_sequence_def animation_at_def)

lemma in_sequence_apply_op:
  assumes "player_inv m" "in_sequence m" "0 \<le> mSpeed m" "nonneg_step c" "apply_op c m = Some m'"
  shows "in_sequence m' \<and> 0 \<le> mSpeed m'"
proof -
  from assms(1) have i: "0 \<le> mActiveAnimation m" "mActiveAnimation m < 20"
    by (simp_all add: player_inv_def)
  show ?thesis
  proof (cases c)
    case OpPlay
    then show ?thesis using assms by (auto simp: Play_def in_sequence_def split: option.splits)
  next
    case OpPause
    then show ?thesis using assms by (auto simp: Pause_def in_sequence_def split: option.splits)
  next
    case OpNext
    then have "m' = m\<lparr>mActiveAnimation := (mActiveAnimation m + 1) mod 20,
        mActiveFrame := of_int (start (sAnimations ! nat ((mActiveAnimation m + 1) mod 20)))\<rparr>"
      using assms(5) NextAnimation_step [OF i] by simp
    then show ?thesis
      using in_sequence_start [of "(mActiveAnimation m + 1) mod 20" m] assms(3) by simp
  next
    case OpPrevious
    then have "m' = m\<lparr>mActiveAnimation := (mActiveAnimation m - 1) mod 20,
        mActiveFrame := of_int (start (sAnimations ! nat ((mActiveAnimation m - 1) mod 20)))\<rparr>"
      using assms(5) PreviousAnimation_step [OF i] by simp
    then show ?thesis
      using in_sequence_start [of "(mActiveAnimation m - 1) mod 20" m] assms(3) by simp
  next
    case (OpUpdate dt)
    then have "0 \<le> dt" "Update dt m = Some m'" using assms(4,5) by simp_all
    with Update_in_sequence [OF assms(2,3), of dt] show ?thesis using assms(3) by auto
  qed
qed

lemma in_sequence_run_ops:
  assumes "player_inv m" "in_sequence m" "0 \<le> mSpeed m" "list_all nonneg_step cs"
    "run_ops cs m = Some m'"
  shows "in_sequence m' \<and> 0 \<le> mSpeed m'"
  using assms
proof (induction cs arbitrary: m)
  case Nil
  then show ?case by simp
next
  case (Cons c cs)
  from Cons.prems(5) obtain m1 where m1: "apply_op c m = Some m1" "run_ops cs m1 = Some m'"
    by (auto split: option.splits)
  from Cons.prems(4) have n: "nonneg_step c" "list_all nonneg_step cs" by simp_all
  from in_sequence_apply_op [OF Cons.prems(1,2,3) n(1) m1(1)]
  have "in_sequence m1" "0 \<le> mSpeed m1" by simp_all
  moreover have "player_inv m1" by (rule player_inv_apply_op [OF Cons.prems(1) m1(1)])
  ultimately show ?case using Cons.IH n(2) m1(2) by blast
qed

lemma in_sequence_from_default:
  assumes "list_all nonneg_step cs" "run_ops cs Md2_default = Some m"
  shows "in_sequence m \<and> 0 \<le> mSpeed m"
proof -
  have "in_sequence Md2_default"
    by (simp add: in_sequence_def Md2_default_def animation_at_def sAnimations_def mk_anim_def)
  moreover have "0 \<le> mSpeed Md2_default" by (simp add: Md2_default_def)
  ultimately show ?thesis
    using in_sequence_run_ops [OF player_inv_default _ _ assms] by blast
qed

section \<open>Properties of the loader\<close>

lemma those_map_Some: "those (map Some xs) = Some xs"
  by (induction xs) simp_all

lemma those_None: "None \<in> set xs \<Longrightarrow> those xs = None"
  by (induction xs) (auto split: option.splits)

lemma read_header_mem:
  "fst (read 68 (open_stream bs)) = map Some (take 68 bs) @ replicate (68 - length bs) None"
  by (simp add: read_def open_stream_def Let_def)

lemma bytes_at_read:
  assumes "off + 4 \<le> 68"
  shows "bytes_at (map Some (take 68 bs) @ replicate (68 - length bs) None) off 4
         = bytes_at (map Some bs) off 4"
proof (cases "off + 4 \<le> length bs")
  case True
  then have "take 4 (drop off (map Some (take 68 bs) @ replicate (68 - length bs) None))
             = take 4 (drop off (map Some bs))"
    using assms by (simp add: take_map drop_map drop_take min_def)
  then show ?thesis using True assms by (simp add: bytes_at_def)
next
  case False
  define hm where "hm = map Some (take 68 bs) @ replicate (68 - length bs) None"
  define j where "j = max (length bs) off"
  have l: "length hm = 68" by (simp add: hm_def)
  have j: "off \<le> j" "j < off + 4" "length bs \<le> j" using False by (simp_all add: j_def)
  have "hm ! j = None"
    using j assms False by (simp add: hm_def nth_append)
  moreover have "take 4 (drop off hm) ! (j - off) = hm ! j"
    using j l assms by simp
  moreover have "j - off < length (take 4 (drop off hm))" using j l assms by simp
  ultimately have "None \<in> set (take 4 (drop off hm))"
    by (metis nth_mem)
  then have "those (take 4 (drop off hm)) = None" by (rule those_None)
  then have "bytes_at hm off 4 = None" by (simp only: bytes_at_def if_cancel)
  moreover have "bytes_at (map Some bs) off 4 = None" using False by (simp add: bytes_at_def)
  ultimately show ?thesis by (simp only: hm_def)
qed

lemma header_read: "header_of (fst (read 68 (open_stream bs))) = file_header bs"
  by (simp add: read_header_mem header_of_def file_header_def int32_at_def bytes_at_read)

lemma Load_Some:
  assumes "deletable m0"
  shows "Load (Some bs) m0 =
    (case ident (file_header bs) of
          None \<Rightarrow> Undefined
        | Some idt \<Rightarrow>
       if idt \<noteq> IDP2 then Throws BadIdent (cleared m0)
       else case version (file_header bs) of
          None \<Rightarrow> Undefined
        | Some v \<Rightarrow>
       if v \<noteq> 8 then Throws BadVersion (cleared m0)
       else case save_information (file_header bs) (cleared m0) of
          None \<Rightarrow> Undefined
        | Some m1 \<Rightarrow> load_skins (file_header bs) (snd (read 68 (open_stream bs))) m1)"
  using assms
  by (simp add: Load_def Clear_def case_prod_beta Let_def header_read
      cong: option.case_cong if_cong)

text \<open>
  C6. For every file that can be opened: when its magic identifier differs from
  \<open>IDP2\<close> (the bytes 'I', 'D', 'P', '2' as a little-endian 32-bit integer), \<open>Load\<close>
  throws \<open>BadIdent\<close>, whatever the other fields hold; when the identifier matches and
  the version differs from 8, it throws \<open>BadVersion\<close>; and a load that goes on past
  the two checks has passed both.
\<close>

theorem Load_checks:
  assumes "deletable m0"
  shows "(ident (file_header bs) = Some i \<and> i \<noteq> IDP2
            \<longrightarrow> Load (Some bs) m0 = Throws BadIdent (cleared m0))
       \<and> (ident (file_header bs) = Some IDP2 \<and> version (file_header bs) = Some v \<and> v \<noteq> 8
            \<longrightarrow> Load (Some bs) m0 = Throws BadVersion (cleared m0))
       \<and> (thrown (Load (Some bs) m0) \<notin> {Some BadIdent, Some BadVersion} \<and> Load (Some bs) m0 \<noteq> Undefined
            \<longrightarrow> ident (file_header bs) = Some IDP2 \<and> version (file_header bs) = Some 8)"
  using assms by (auto simp: Load_Some split: option.splits if_splits)

theorem Load_checks_witness:
  "Load (Some [73, 68, 80, 51]) Md2_default = Throws BadIdent (cleared Md2_default) \<and>
   Load (Some [73, 68, 80, 50, 9, 0, 0, 0]) Md2_default = Throws BadVersion (cleared Md2_default) \<and>
   thrown (Load (Some (header_bytes [IDP2, 8, 0, 0, 0, 0, 1, 0, 0, 0, 198, 68, 68, 68, 68, 68, 68]))
       Md2_default) = Some BadTriangleData \<and>
   ident (file_header (header_bytes [IDP2, 8, 0, 0, 0, 0, 1, 0, 0, 0, 198, 68, 68, 68, 68, 68, 68]))
     = Some IDP2 \<and>
   version (file_header (header_bytes [IDP2, 8, 0, 0, 0, 0, 1, 0, 0, 0, 198, 68, 68, 68, 68, 68, 68]))
     = Some 8"
proof -
  have d: "deletable Md2_default" by (simp add: deletable_def Md2_default_def)
  have i: "ident (file_header [73, 68, 80, 51]) = Some 860898377 \<and> 860898377 \<noteq> IDP2"
    by code_simp
  have v: "ident (file_header [73, 68, 80, 50, 9, 0, 0, 0]) = Some IDP2 \<and>
           version (file_header [73, 68, 80, 50, 9, 0, 0, 0]) = Some 9 \<and> (9::int) \<noteq> 8"
    by code_simp
  have t: "thrown (Load (Some (header_bytes [IDP2, 8, 0, 0, 0, 0, 1, 0, 0, 0, 198, 68, 68, 68, 68, 68, 68]))
       Md2_default) = Some BadTriangleData"
    by code_simp
  then have p: "thrown (Load (Some (header_bytes [IDP2, 8, 0, 0, 0, 0, 1, 0, 0, 0, 198, 68, 68, 68, 68, 68, 68]))
        Md2_default) \<notin> {Some BadIdent, Some BadVersion} \<and>
      Load (Some (header_bytes [IDP2, 8, 0, 0, 0, 0, 1, 0, 0, 0, 198, 68, 68, 68, 68, 68, 68]))
        Md2_default \<noteq> Undefined"
    by auto
  show ?thesis
    using Load_checks [OF d, of "[73, 68, 80, 51]" 860898377 9]
      Load_checks [OF d, of "[73, 68, 80, 50, 9, 0, 0, 0]" 0 9]
      Load_checks [OF d,
        of "header_bytes [IDP2, 8, 0, 0, 0, 0, 1, 0, 0, 0, 198, 68, 68, 68, 68, 68, 68]" 0 0]
      i v t p
    by blast
qed

lemma without_arrays_simps [simp]:
  "without_arrays (m\<lparr>mSkins := x\<rparr>) = without_arrays m"
  "without_arrays (m\<lparr>mTexCoords := x\<rparr>) = without_arrays m"
  "without_arrays (m\<lparr>mTriangles := x\<rparr>) = without_arrays m"
  "without_arrays (m\<lparr>mFrames := y\<rparr>) = without_arrays m"
  by (simp_all add: without_arrays_def)



lemma load_frames_BadFrameData:
  "(thrown (load_frames h s m) = Some BadFrameData) = (mFrameCnt m \<noteq> 198)"
  by (auto simp: load_frames_def Let_def split: if_splits option.splits)



lemma load_triangles_BadFrameData:
  "0 < mTriangleCnt m \<Longrightarrow> triangleOffset h = Some off \<Longrightarrow>
   (thrown (load_triangles h s m) = Some BadFrameData) = (mFrameCnt m \<noteq> 198)"
  by (simp add: load_triangles_def Let_def case_prod_beta load_frames_BadFrameData)



lemma load_texcoords_BadFrameData:
  "0 < mTriangleCnt m \<Longrightarrow> triangleOffset h = Some off \<Longrightarrow> texCoordOffset h = Some off' \<Longrightarrow>
   (thrown (load_texcoords h s m) = Some BadFrameData) = (mFrameCnt m \<noteq> 198)"
  by (simp add: load_texcoords_def Let_def case_prod_beta load_triangles_BadFrameData)



lemma load_skins_BadFrameData:
  "0 < mTriangleCnt m \<Longrightarrow> triangleOffset h = Some off \<Longrightarrow> texCoordOffset h = Some off'
   \<Longrightarrow> skinOffset h = Some off'' \<Longrightarrow>
   (thrown (load_skins h s m) = Some BadFrameData) = (mFrameCnt m \<noteq> 198)"
  by (simp add: load_skins_def Let_def case_prod_beta load_texcoords_BadFrameData)

lemma without_arrays_cleared: "without_arrays (cleared m) = cleared m"
  by (simp add: without_arrays_def cleared_def)


lemma save_information_counts:
  assumes "save_information h m = Some m1"
  shows "Some (mSkinCnt m1) = map_option to_int16 (skinCnt h)"
    and "Some (mTexCoordCnt m1) = map_option to_int16 (texCoordCnt h)"
    and "Some (mTriangleCnt m1) = map_option to_int16 (triangleCnt h)"
    and "Some (mFrameCnt m1) = map_option to_int16 (frameCnt h)"
    and "Some (mVertexCnt m1) = map_option to_int16 (vertexCnt h)"
  using assms by (auto simp: save_information_def split: option.splits)









lemma bytes_at_file:
  "off + k \<le> length bs \<Longrightarrow> bytes_at (map Some bs) off k = Some (take k (drop off bs))"
  by (simp add: bytes_at_def take_map drop_map those_map_Some)

lemma complete_header:
  assumes "68 \<le> length bs"
  shows "\<exists>a b c d e f g. skinCnt (file_header bs) = Some a \<and> texCoordCnt (file_header bs) = Some b
      \<and> vertexCnt (file_header bs) = Some c \<and> skinWidth (file_header bs) = Some d
      \<and> skinHeight (file_header bs) = Some e \<and> triangleCnt (file_header bs) = Some f
      \<and> frameCnt (file_header bs) = Some g"
    and "\<exists>a b c d. skinOffset (file_header bs) = Some a \<and> texCoordOffset (file_header bs) = Some b
      \<and> triangleOffset (file_header bs) = Some c \<and> frameOffset (file_header bs) = Some d"
  using assms by (simp_all add: file_header_def header_of_def int32_at_def bytes_at_file)

text \<open>
  C1 (amended). For every file that holds a complete header and passes the checks of
  the magic identifier, of the version and of the triangle count, \<open>Load\<close> fails with
  \<open>BadFrameData\<close> if and only if the frame count of the header, as a 16-bit value,
  differs from 198 (the frames 0 to 197).
\<close>

theorem Load_BadFrameData:
  assumes "deletable m0" and "68 \<le> length bs"
    and "ident (file_header bs) = Some IDP2" and "version (file_header bs) = Some 8"
    and "triangleCnt (file_header bs) = Some trc" and "0 < to_int16 trc"
    and "frameCnt (file_header bs) = Some fc"
  shows "(thrown (Load (Some bs) m0) = Some BadFrameData) = (to_int16 fc \<noteq> 198)"
proof -
  from complete_header [OF assms(2)] obtain a b c d e so to tro where
    f: "skinCnt (file_header bs) = Some a" "texCoordCnt (file_header bs) = Some b"
       "vertexCnt (file_header bs) = Some c" "skinWidth (file_header bs) = Some d"
       "skinHeight (file_header bs) = Some e"
    and o: "skinOffset (file_header bs) = Some so" "texCoordOffset (file_header bs) = Some to"
       "triangleOffset (file_header bs) = Some tro"
    by (metis option.inject assms(5,7))
  obtain m1 where m1: "save_information (file_header bs) (cleared m0) = Some m1"
    using f assms(5,7) by (simp add: save_information_def)
  have c: "mTriangleCnt m1 = to_int16 trc" "mFrameCnt m1 = to_int16 fc"
    using save_information_counts(3,4) [OF m1] assms(5,7) by simp_all
  have "Load (Some bs) m0 = load_skins (file_header bs) (snd (read 68 (open_stream bs))) m1"
    using assms(3,4) m1 by (simp add: Load_Some [OF assms(1)])
  then show ?thesis
    using load_skins_BadFrameData [OF _ o(3) o(2) o(1), of m1] c assms(6) by simp
qed

theorem Load_BadFrameData_witness:
  "thrown (Load (Some (header_bytes [IDP2, 8, 0, 0, 0, 0, 1, 0, 1, 0, 198, 68, 68, 68, 68, 68, 68]))
      Md2_default) \<noteq> Some BadFrameData
   \<and> thrown (Load (Some (header_bytes [IDP2, 8, 0, 0, 0, 0, 1, 0, 1, 0, 65734, 68, 68, 68, 68, 68, 68]))
      Md2_default) \<noteq> Some BadFrameData
   \<and> thrown (Load (Some (header_bytes [IDP2, 8, 0, 0, 0, 0, 1, 0, 1, 0, 200, 68, 68, 68, 68, 68, 68]))
      Md2_default) = Some BadFrameData"
proof -
  have d: "deletable Md2_default" by (simp add: deletable_def Md2_default_def)
  have l: "68 \<le> length (header_bytes [IDP2, 8, 0, 0, 0, 0, 1, 0, 1, 0, x, 68, 68, 68, 68, 68, 68])"
    for x by (simp add: header_bytes_def int32_bytes_def)
  have f: "ident (file_header (header_bytes [IDP2, 8, 0, 0, 0, 0, 1, 0, 1, 0, 198, 68, 68, 68, 68, 68, 68])) = Some IDP2"
    "version (file_header (header_bytes [IDP2, 8, 0, 0, 0, 0, 1, 0, 1, 0, 198, 68, 68, 68, 68, 68, 68])) = Some 8"
    "triangleCnt (file_header (header_bytes [IDP2, 8, 0, 0, 0, 0, 1, 0, 1, 0, 198, 68, 68, 68, 68, 68, 68])) = Some 1"
    "frameCnt (file_header (header_bytes [IDP2, 8, 0, 0, 0, 0, 1, 0, 1, 0, 198, 68, 68, 68, 68, 68, 68])) = Some 198"
    by code_simp+
  have g: "ident (file_header (header_bytes [IDP2, 8, 0, 0, 0, 0, 1, 0, 1, 0, 65734, 68, 68, 68, 68, 68, 68])) = Some IDP2"
    "version (file_header (header_bytes [IDP2, 8, 0, 0, 0, 0, 1, 0, 1, 0, 65734, 68, 68, 68, 68, 68, 68])) = Some 8"
    "triangleCnt (file_header (header_bytes [IDP2, 8, 0, 0, 0, 0, 1, 0, 1, 0, 65734, 68, 68, 68, 68, 68, 68])) = Some 1"
    "frameCnt (file_header (header_bytes [IDP2, 8, 0, 0, 0, 0, 1, 0, 1, 0, 65734, 68, 68, 68, 68, 68, 68])) = Some 65734"
    by code_simp+
  have h: "ident (file_header (header_bytes [IDP2, 8, 0, 0, 0, 0, 1, 0, 1, 0, 200, 68, 68, 68, 68, 68, 68])) = Some IDP2"
    "version (file_header (header_bytes [IDP2, 8, 0, 0, 0, 0, 1, 0, 1, 0, 200, 68, 68, 68, 68, 68, 68])) = Some 8"
    "triangleCnt (file_header (header_bytes [IDP2, 8, 0, 0, 0, 0, 1, 0, 1, 0, 200, 68, 68, 68, 68, 68, 68])) = Some 1"
    "frameCnt (file_header (header_bytes [IDP2, 8, 0, 0, 0, 0, 1, 0, 1, 0, 200, 68, 68, 68, 68, 68, 68])) = Some 200"
    by code_simp+
  have t: "0 < to_int16 1" by (simp add: to_int16_def)
  show ?thesis
    using Load_BadFrameData [OF d l f(1,2,3) t f(4)] Load_BadFrameData [OF d l g(1,2,3) t g(4)]
      Load_BadFrameData [OF d l h(1,2,3) t h(4)]
    by (simp add: to_int16_def)
qed

text \<open>
  C1, as the specification states it, fails: a file whose header passes the checks of
  the identifier, the version and the triangle count and has a frame count of exactly
  199 fails with \<open>BadFrameData\<close>.
\<close>

theorem Load_199_frames:
  "ident (file_header (header_bytes [IDP2, 8, 0, 0, 0, 0, 1, 0, 1, 0, 199, 68, 68, 68, 68, 68, 68]))
     = Some IDP2
   \<and> version (file_header (header_bytes [IDP2, 8, 0, 0, 0, 0, 1, 0, 1, 0, 199, 68, 68, 68, 68, 68, 68]))
     = Some 8
   \<and> triangleCnt (file_header (header_bytes [IDP2, 8, 0, 0, 0, 0, 1, 0, 1, 0, 199, 68, 68, 68, 68, 68, 68]))
     = Some 1
   \<and> frameCnt (file_header (header_bytes [IDP2, 8, 0, 0, 0, 0, 1, 0, 1, 0, 199, 68, 68, 68, 68, 68, 68]))
     = Some 199
   \<and> thrown (Load (Some (header_bytes [IDP2, 8, 0, 0, 0, 0, 1, 0, 1, 0, 199, 68, 68, 68, 68, 68, 68]))
       Md2_default) = Some BadFrameData"
  by code_simp



section \<open>Properties of the vertex generator\<close>

lemma store_Some:
  "store buf k v = Some buf' \<Longrightarrow> k < length buf \<and> buf' = buf[k := v]"
  by (auto simp: store_def split: if_splits)

lemma gen_loop_length:
  "gen_loop m l a b ijs buf = Some out \<Longrightarrow> length out = length buf"
proof (induction ijs arbitrary: buf)
  case Nil
  then show ?case by simp
next
  case (Cons ij ijs)
  from Cons.prems obtain v buf' where v: "gen_vertex m l a b (fst ij) (snd ij) = Some v"
    and s: "store buf (index_of ij) v = Some buf'" and r: "gen_loop m l a b ijs buf' = Some out"
    by (auto split: option.splits)
  from Cons.IH [OF r] store_Some [OF s] show ?case by simp
qed



































end
